theory Spec2Isabelle
  imports Complex_Main "HOL-Library.Sublist"
begin

section \<open>Errors raised by the dialect\<close>

text \<open>
  The data types of the CockroachDB dialect fail in five ways: a plain JavaScript
  \<^verbatim>\<open>Error\<close> (\<^verbatim>\<open>throw new Error(msg)\<close>), the typed error raised by
  \<^verbatim>\<open>ValidationErrorItem.throwDataTypeValidationError(msg)\<close>, a failed
  \<^verbatim>\<open>assert(cond, msg)\<close> of \<^verbatim>\<open>node:assert\<close>, the engine's own
  \<^verbatim>\<open>TypeError\<close> for a property read on \<^verbatim>\<open>undefined\<close>, and the engine's
  \<^verbatim>\<open>RangeError\<close> for a call with more arguments than it can take. Every function
  that can throw returns \<open>error + 'a\<close>, with \<open>Inl\<close> for the thrown error.
\<close>

datatype error =
    Error string
  | DataTypeValidationError string
  | AssertionError string
  | TypeError string
  | RangeError string

section \<open>Integer types (data-types.ts, lines 13-102)\<close>

text \<open>
  The options of an integer type that the dialect reads: \<^verbatim>\<open>options.length\<close>
  (a number or absent) and \<^verbatim>\<open>options.unsigned\<close> (a boolean or absent). The
  field for \<^verbatim>\<open>length\<close> is named \<open>length_opt\<close> because \<open>length\<close> is the list
  function of HOL.
\<close>

record integer_options =
  length_opt :: "int option"
  unsigned :: "bool option"
  zerofill :: "bool option"

text \<open>
  An integer type object: \<^verbatim>\<open>getDataTypeId()\<close> is the identifier of its class
  (\<^verbatim>\<open>'TINYINT'\<close>, \<^verbatim>\<open>'INTEGER'\<close>, ...), \<^verbatim>\<open>options\<close> its mutable options.
\<close>

record integer_type =
  getDataTypeId :: string
  options :: integer_options

text \<open>
  What option checking reads and writes of the dialect: its \<^verbatim>\<open>name\<close>, and the
  advisories passed to \<^verbatim>\<open>dialect.warnDataTypeIssue\<close>, oldest first.
\<close>

record dialect =
  name :: string
  advisories :: "string list"

definition warnDataTypeIssue :: "string \<Rightarrow> dialect \<Rightarrow> dialect" where
  "warnDataTypeIssue message d = d\<lparr>advisories := advisories d @ [message]\<rparr>"

text \<open>JavaScript truthiness of an optional boolean: absent counts as false.\<close>

fun truthy :: "bool option \<Rightarrow> bool" where
  "truthy None = False"
| "truthy (Some b) = b"

text \<open>
  \<^verbatim>\<open>removeUnsupportedIntegerOptions\<close>: when \<^verbatim>\<open>options.length != null\<close>, one
  advisory is issued and the option is deleted; otherwise nothing changes.
\<close>

definition removeUnsupportedIntegerOptions ::
    "integer_type \<Rightarrow> dialect \<Rightarrow> integer_type \<times> dialect" where
  "removeUnsupportedIntegerOptions dataType d =
     (if length_opt (options dataType) \<noteq> None
      then (dataType\<lparr>options := (options dataType)\<lparr>length_opt := None\<rparr>\<rparr>,
            warnDataTypeIssue
              (name d @ '' does not support '' @ getDataTypeId dataType
                 @ '' with length specified. This options is ignored.'') d)
      else (dataType, d))"

text \<open>
  \<^verbatim>\<open>_checkOptionSupport\<close> is the same in TINYINT, INTEGER, SMALLINT, MEDIUMINT and
  BIGINT: the check of the abstract base class runs first (it is not part of the
  dialect's file, so it is the parameter \<open>super_check\<close>; it may throw, and it may
  change the type and issue advisories of its own), then
  \<^verbatim>\<open>removeUnsupportedIntegerOptions\<close>.
\<close>

definition checkOptionSupport ::
    "(integer_type \<Rightarrow> dialect \<Rightarrow> error + integer_type \<times> dialect)
      \<Rightarrow> integer_type \<Rightarrow> dialect \<Rightarrow> error + integer_type \<times> dialect" where
  "checkOptionSupport super_check dataType d =
     (case super_check dataType d of
        Inl e \<Rightarrow> Inl e
      | Inr (dataType', d') \<Rightarrow> Inr (removeUnsupportedIntegerOptions dataType' d'))"

definition TINYINT_toSql :: "integer_type \<Rightarrow> string" where
  "TINYINT_toSql this = ''SMALLINT''"

definition INTEGER_toSql :: "integer_type \<Rightarrow> string" where
  "INTEGER_toSql this = (if truthy (unsigned (options this)) then ''BIGINT'' else ''INTEGER'')"

definition SMALLINT_toSql :: "integer_type \<Rightarrow> string" where
  "SMALLINT_toSql this = (if truthy (unsigned (options this)) then ''INTEGER'' else ''SMALLINT'')"

definition MEDIUMINT_toSql :: "integer_type \<Rightarrow> string" where
  "MEDIUMINT_toSql this = ''INTEGER''"

section \<open>JavaScript values\<close>

text \<open>
  A JavaScript number is a finite value, one of the two infinities, or NaN. The finite
  values are kept abstract as reals (every finite double is one); only their order and
  their difference from the infinities are used.
\<close>

datatype js_number = Finite real | PosInfinity | NegInfinity | NotANumber

text \<open>
  The values a caller can hand to \<^verbatim>\<open>validate\<close>, \<^verbatim>\<open>sanitize\<close> or \<^verbatim>\<open>escape\<close>, whose
  parameters are typed \<^verbatim>\<open>any\<close> or by the type's accepted values. A \<^verbatim>\<open>Date\<close> carries
  its time value; an object is a list of its own properties. An array is the list of
  its slots up to its length: a slot holds an element or is a hole (\<open>None\<close>), as in
  \<^verbatim>\<open>[ , 1]\<close> or \<^verbatim>\<open>new Array(3)\<close>.
\<close>

datatype js_value =
    JUndefined
  | JNull
  | JBoolean bool
  | JNumber js_number
  | JBigInt int
  | JString string
  | JDate js_number
  | JArray "js_value option list"
  | JObject "(string \<times> js_value) list"

text \<open>
  \<^verbatim>\<open>value === n\<close> for a number \<open>n\<close>: true only for a number equal to \<open>n\<close>, and
  NaN equals nothing.
\<close>

fun strict_equals_number :: "js_value \<Rightarrow> js_number \<Rightarrow> bool" where
  "strict_equals_number (JNumber a) b = (a \<noteq> NotANumber \<and> b \<noteq> NotANumber \<and> a = b)"
| "strict_equals_number _ b = False"

text \<open>\<^verbatim>\<open>Array.isArray\<close>.\<close>

fun isArray :: "js_value \<Rightarrow> bool" where
  "isArray (JArray xs) = True"
| "isArray _ = False"

subsection \<open>Decimal text of integers\<close>

text \<open>
  \<^verbatim>\<open>String(n)\<close> of a BigInt, and of the array length in a template literal, is the
  decimal numeral without leading zeros, with a minus sign for a negative value.
\<close>

definition digit_char :: "nat \<Rightarrow> char" where
  "digit_char d =
     (if d = 0 then CHR ''0'' else if d = 1 then CHR ''1'' else if d = 2 then CHR ''2''
      else if d = 3 then CHR ''3'' else if d = 4 then CHR ''4'' else if d = 5 then CHR ''5''
      else if d = 6 then CHR ''6'' else if d = 7 then CHR ''7'' else if d = 8 then CHR ''8''
      else CHR ''9'')"

function decimal :: "nat \<Rightarrow> string" where
  "decimal n = (if n < 10 then [digit_char n] else decimal (n div 10) @ [digit_char (n mod 10)])"
  by pat_completeness auto
termination
  by (relation "measure id") auto

declare decimal.simps [simp del]

definition BigInt_toString :: "int \<Rightarrow> string" where
  "BigInt_toString i = (if i < 0 then CHR ''-'' # decimal (nat (- i)) else decimal (nat i))"

text \<open>Reading a decimal numeral back, to state that the text is exact.\<close>

definition digit_value :: "char \<Rightarrow> nat" where
  "digit_value c = of_char c - 48"

definition read_decimal :: "string \<Rightarrow> nat" where
  "read_decimal s = foldl (\<lambda>acc c. 10 * acc + digit_value c) 0 s"

fun read_integer :: "string \<Rightarrow> int" where
  "read_integer [] = 0"
| "read_integer (c # cs) =
     (if c = CHR ''-'' then - int (read_decimal cs) else int (read_decimal (c # cs)))"

section \<open>INTEGER.sanitize (data-types.ts, lines 53-59)\<close>

text \<open>
  The parameter is typed \<^verbatim>\<open>number\<close>, and the comparison and \<^verbatim>\<open>String\<close> work the
  same on a BigInt, the arbitrary-precision integer: \<open>numeric\<close> is either. The
  comparison of a BigInt with a number is exact in JavaScript.
\<close>

datatype numeric = Number js_number | BigInt int

definition MAX_SAFE_INTEGER :: int where
  "MAX_SAFE_INTEGER = 9007199254740991"

fun greater_than :: "numeric \<Rightarrow> int \<Rightarrow> bool" where
  "greater_than (BigInt i) m = (i > m)"
| "greater_than (Number (Finite x)) m = (x > real_of_int m)"
| "greater_than (Number PosInfinity) m = True"
| "greater_than (Number NegInfinity) m = False"
| "greater_than (Number NotANumber) m = False"

subsection \<open>String of a number\<close>

text \<open>
  \<^verbatim>\<open>String(x)\<close> of a number is \<open>Number::toString\<close> of the language. For a finite
  \<open>x\<close> it takes the shortest decimal numeral \<open>s\<close>, of \<open>k\<close> digits, and the exponent
  \<open>n\<close> such that \<open>s * 10 ^ (n - k)\<close> is read back as the double \<open>x\<close>; of several
  such \<open>s\<close> the one nearest to \<open>x\<close>. With \<open>k \<le> n \<le> 21\<close> the text is \<open>s\<close>
  followed by \<open>n - k\<close> zeros, and with \<open>21 < n\<close> it is in exponent notation. This
  is modelled for the numbers whose value is a natural number \<open>m\<close>.

  A double has 53 significant bits: \<open>ulp m\<close> is the distance between neighbouring
  doubles at the size of \<open>m\<close>, and \<open>round_double m\<close> the double nearest to \<open>m\<close>,
  the one with the even significand when two are equally near (overflow to infinity,
  from \<open>2 ^ 1024\<close> on, is left out). A natural number \<open>m\<close> is a double when
  \<open>round_double m = m\<close>.
\<close>

function ulp :: "nat \<Rightarrow> nat" where
  "ulp m = (if m < 2 ^ 53 then 1 else 2 * ulp (m div 2))"
  by pat_completeness auto
termination
  by (relation "measure id") auto

declare ulp.simps [simp del]

definition round_double :: "nat \<Rightarrow> nat" where
  "round_double m =
     (let u = ulp m; q = m div u; r = m mod u in
      if 2 * r < u then q * u
      else if u < 2 * r then (q + 1) * u
      else if even q then q * u else (q + 1) * u)"

text \<open>
  \<open>shortest m k\<close> looks for the numeral with \<open>k\<close> significant digits, then with
  \<open>k + 1\<close>, and so on: of the two numbers with \<open>k\<close> significant digits around
  \<open>m\<close>, \<open>lo\<close> and \<open>hi\<close>, it takes one that is read back as \<open>m\<close>, the nearer one
  if both are. It returns the number \<open>s * 10 ^ (n - k)\<close>; with all its digits, \<open>m\<close>
  itself is found.
\<close>

function shortest :: "nat \<Rightarrow> nat \<Rightarrow> nat" where
  "shortest m k =
     (let D = length (decimal m) in
      if D \<le> k then m
      else
        (let p = 10 ^ (D - k); lo = (m div p) * p; hi = lo + p;
             lo_ok = (round_double lo = m); hi_ok = (round_double hi = m) in
         if lo_ok \<and> hi_ok
         then (if m - lo < hi - m then lo
               else if hi - m < m - lo then hi
               else if even (m div p) then lo else hi)
         else if lo_ok then lo
         else if hi_ok then hi
         else shortest m (k + 1)))"
  by pat_completeness auto
termination
  by (relation "measure (\<lambda>(m, k). length (decimal m) - k)") auto

declare shortest.simps [simp del]

definition strip_zeros :: "string \<Rightarrow> string" where
  "strip_zeros ds = rev (dropWhile (\<lambda>c. c = CHR ''0'') (rev ds))"

text \<open>
  The text of a positive integer-valued number: its shortest numeral written out when
  it has at most 21 digits, and otherwise the significant digits, with a point after
  the first when there are more, \<^verbatim>\<open>e+\<close> and the exponent \<open>n - 1\<close>.
\<close>

definition Number_toString_integer :: "nat \<Rightarrow> string" where
  "Number_toString_integer m =
     (let ds = decimal (shortest m 1); n = length ds in
      if n \<le> 21 then ds
      else
        (let s = strip_zeros ds in
         if length s = 1 then s @ ''e+'' @ decimal (n - 1)
         else hd s # ''.'' @ tl s @ ''e+'' @ decimal (n - 1)))"

text \<open>
  \<open>Number::toString\<close>. The text of a finite number that is not an integer is not
  needed for an integer type and is the parameter \<open>fraction_text\<close>.
\<close>

fun Number_toString :: "(real \<Rightarrow> string) \<Rightarrow> js_number \<Rightarrow> string" where
  "Number_toString fraction_text NotANumber = ''NaN''"
| "Number_toString fraction_text PosInfinity = ''Infinity''"
| "Number_toString fraction_text NegInfinity = ''-Infinity''"
| "Number_toString fraction_text (Finite x) =
     (if x = real_of_int \<lfloor>x\<rfloor>
      then (if x = 0 then ''0''
            else if x < 0 then CHR ''-'' # Number_toString_integer (nat (- \<lfloor>x\<rfloor>))
            else Number_toString_integer (nat \<lfloor>x\<rfloor>))
      else fraction_text x)"

fun String_numeric :: "(real \<Rightarrow> string) \<Rightarrow> numeric \<Rightarrow> string" where
  "String_numeric fraction_text (BigInt i) = BigInt_toString i"
| "String_numeric fraction_text (Number x) = Number_toString fraction_text x"

fun js_value_of :: "numeric \<Rightarrow> js_value" where
  "js_value_of (BigInt i) = JBigInt i"
| "js_value_of (Number x) = JNumber x"

subsection \<open>sanitize\<close>

definition INTEGER_sanitize :: "(real \<Rightarrow> string) \<Rightarrow> numeric \<Rightarrow> js_value" where
  "INTEGER_sanitize fraction_text v =
     (if greater_than v MAX_SAFE_INTEGER then JString (String_numeric fraction_text v)
      else js_value_of v)"

section \<open>BIGINT.$stringify (data-types.ts, lines 94-101)\<close>

subsection \<open>Regular expressions\<close>

text \<open>
  The pattern \<^verbatim>\<open>/^[-+]?[0-9]+$/\<close> has no flags, so \<^verbatim>\<open>^\<close> and \<^verbatim>\<open>$\<close> stand for the two
  ends of the input and \<^verbatim>\<open>test\<close> asks whether the whole string matches
  \<^verbatim>\<open>[-+]?[0-9]+\<close>. Patterns are terms; \<open>regex_test\<close> decides a match by taking the
  derivative of the pattern by each character in turn.
\<close>

datatype regex =
    Never
  | Empty
  | OneOf "char list"
  | Between char char
  | Then regex regex
  | Either regex regex
  | Many regex

definition Optional :: "regex \<Rightarrow> regex" where
  "Optional r = Either r Empty"

definition OneOrMore :: "regex \<Rightarrow> regex" where
  "OneOrMore r = Then r (Many r)"

definition in_range :: "char \<Rightarrow> char \<Rightarrow> char \<Rightarrow> bool" where
  "in_range lo hi c = ((of_char lo :: nat) \<le> of_char c \<and> (of_char c :: nat) \<le> of_char hi)"

fun nullable :: "regex \<Rightarrow> bool" where
  "nullable Never = False"
| "nullable Empty = True"
| "nullable (OneOf cs) = False"
| "nullable (Between lo hi) = False"
| "nullable (Then r s) = (nullable r \<and> nullable s)"
| "nullable (Either r s) = (nullable r \<or> nullable s)"
| "nullable (Many r) = True"

fun deriv :: "char \<Rightarrow> regex \<Rightarrow> regex" where
  "deriv c Never = Never"
| "deriv c Empty = Never"
| "deriv c (OneOf cs) = (if c \<in> set cs then Empty else Never)"
| "deriv c (Between lo hi) = (if in_range lo hi c then Empty else Never)"
| "deriv c (Then r s) =
     (if nullable r then Either (Then (deriv c r) s) (deriv c s) else Then (deriv c r) s)"
| "deriv c (Either r s) = Either (deriv c r) (deriv c s)"
| "deriv c (Many r) = Then (deriv c r) (Many r)"

fun regex_test :: "regex \<Rightarrow> string \<Rightarrow> bool" where
  "regex_test r [] = nullable r"
| "regex_test r (c # cs) = regex_test (deriv c r) cs"

text \<open>What a pattern means: the set of strings it matches as a whole.\<close>

inductive_set star :: "string set \<Rightarrow> string set" for A :: "string set" where
  star_empty: "[] \<in> star A"
| star_more: "u \<in> A \<Longrightarrow> v \<in> star A \<Longrightarrow> u @ v \<in> star A"

fun lang :: "regex \<Rightarrow> string set" where
  "lang Never = {}"
| "lang Empty = {[]}"
| "lang (OneOf cs) = {[c] | c. c \<in> set cs}"
| "lang (Between lo hi) = {[c] | c. in_range lo hi c}"
| "lang (Then r s) = {u @ v | u v. u \<in> lang r \<and> v \<in> lang s}"
| "lang (Either r s) = lang r \<union> lang s"
| "lang (Many r) = star (lang r)"

text \<open>The pattern of the source, \<^verbatim>\<open>[-+]?[0-9]+\<close> between the anchors.\<close>

definition integer_pattern :: regex where
  "integer_pattern = Then (Optional (OneOf ''-+'')) (OneOrMore (Between CHR ''0'' CHR ''9''))"

text \<open>
  \<^verbatim>\<open>$stringify\<close>: \<^verbatim>\<open>String(value)\<close> of a string is the string. The message is built by
  \<^verbatim>\<open>format('%j is not a valid integer', value)\<close> of \<^verbatim>\<open>node:util\<close>, where \<^verbatim>\<open>%j\<close> is the
  JSON text of the value: the parameter \<open>format_j\<close>.
\<close>

definition BIGINT_stringify :: "(string \<Rightarrow> string) \<Rightarrow> string \<Rightarrow> error + string" where
  "BIGINT_stringify format_j v =
     (let rep = v in
      if \<not> regex_test integer_pattern rep
      then Inl (DataTypeValidationError (format_j v @ '' is not a valid integer''))
      else Inr rep)"

text \<open>
  The claim's words for the accepted strings: an optional sign followed by a sequence
  of decimal digits, at least one.
\<close>

definition is_digit :: "char \<Rightarrow> bool" where
  "is_digit c = (48 \<le> (of_char c :: nat) \<and> (of_char c :: nat) \<le> 57)"

definition optionally_signed_digits :: "string \<Rightarrow> bool" where
  "optionally_signed_digits s =
     (\<exists>sign ds. s = sign @ ds \<and> (sign = [] \<or> sign = ''-'' \<or> sign = ''+'')
        \<and> ds \<noteq> [] \<and> list_all is_digit ds)"

section \<open>DATE (data-types.ts, lines 156-200)\<close>

text \<open>
  \<^verbatim>\<open>validate\<close> and \<^verbatim>\<open>toBindableValue\<close> end in a call of the abstract DATE class, which
  is not in the dialect's file: the parameters \<open>super_validate\<close> and
  \<open>super_toBindableValue\<close>.
\<close>

definition DATE_validate :: "(js_value \<Rightarrow> error + unit) \<Rightarrow> js_value \<Rightarrow> error + unit" where
  "DATE_validate super_validate v =
     (if strict_equals_number v PosInfinity \<or> strict_equals_number v NegInfinity
      then Inl (DataTypeValidationError
        ''CockroachDB does not support negative and positive infitnity values in date'')
      else super_validate v)"

definition DATE_toBindableValue :: "(js_value \<Rightarrow> string) \<Rightarrow> js_value \<Rightarrow> string" where
  "DATE_toBindableValue super_toBindableValue v =
     (if strict_equals_number v PosInfinity then ''294276-12-31 23:59:59.999999+00:00''
      else if strict_equals_number v NegInfinity then ''-4713-11-24 00:00:00+00:00''
      else super_toBindableValue v)"

section \<open>ARRAY (data-types.ts, lines 22-26 and 202-247)\<close>

text \<open>
  A depth is a JavaScript number that is a natural number or NaN (\<open>None\<close>).
  \<^verbatim>\<open>Math.max\<close> is NaN as soon as one argument is, and so is \<^verbatim>\<open>1 + NaN\<close>; every
  comparison with NaN is false.
\<close>

fun max_depth :: "nat option \<Rightarrow> nat option \<Rightarrow> nat option" where
  "max_depth (Some a) (Some b) = Some (max a b)"
| "max_depth a b = None"

definition Math_max_0 :: "nat option list \<Rightarrow> nat option" where
  "Math_max_0 depths = fold max_depth depths (Some 0)"

fun greater_than_1 :: "nat option \<Rightarrow> bool" where
  "greater_than_1 (Some d) = (1 < d)"
| "greater_than_1 None = False"

text \<open>
  \<^verbatim>\<open>getArrayDepth\<close>: zero for a value that is not an array, otherwise
  \<^verbatim>\<open>1 + Math.max(0, ...value.map(getArrayDepth))\<close>. \<open>map_getArrayDepth\<close> is
  \<^verbatim>\<open>value.map(getArrayDepth)\<close>: \<^verbatim>\<open>map\<close> calls the function on the elements, from left
  to right, and leaves the holes as they are; an error of a call ends the loop. The
  spread then hands every slot to \<^verbatim>\<open>Math.max\<close> as an argument, a hole as
  \<^verbatim>\<open>undefined\<close>, which \<^verbatim>\<open>Math.max\<close> reads as NaN: the depth of a hole is recorded as
  \<open>None\<close> at once. An engine takes only so many arguments in one call,
  \<open>max_arguments\<close> (the number depends on the engine and on the stack that is left);
  the call of \<^verbatim>\<open>Math.max\<close> has one argument more than the array has slots, and with
  more than \<open>max_arguments\<close> it throws a RangeError (the message is that of V8). How
  deep the recursion itself may go is not bounded here.
\<close>

fun getArrayDepth :: "nat \<Rightarrow> js_value \<Rightarrow> error + nat option"
  and map_getArrayDepth :: "nat \<Rightarrow> js_value option list \<Rightarrow> error + nat option list" where
  "getArrayDepth max_arguments (JArray xs) =
     (case map_getArrayDepth max_arguments xs of
        Inl e \<Rightarrow> Inl e
      | Inr depths \<Rightarrow>
          if max_arguments < Suc (length depths)
          then Inl (RangeError ''Maximum call stack size exceeded'')
          else Inr (map_option Suc (Math_max_0 depths)))"
| "getArrayDepth max_arguments v = Inr (Some 0)"
| "map_getArrayDepth max_arguments [] = Inr []"
| "map_getArrayDepth max_arguments (None # xs) =
     (case map_getArrayDepth max_arguments xs of
        Inl e \<Rightarrow> Inl e
      | Inr depths \<Rightarrow> Inr (None # depths))"
| "map_getArrayDepth max_arguments (Some v # xs) =
     (case getArrayDepth max_arguments v of
        Inl e \<Rightarrow> Inl e
      | Inr d \<Rightarrow>
          (case map_getArrayDepth max_arguments xs of
             Inl e \<Rightarrow> Inl e
           | Inr depths \<Rightarrow> Inr (d # depths)))"

text \<open>
  \<^verbatim>\<open>validate\<close>: an error thrown while the depth is computed leaves \<^verbatim>\<open>validate\<close> as it
  is; \<^verbatim>\<open>depth > 1\<close> is false for a depth that is NaN.
\<close>

definition ARRAY_validate ::
    "nat \<Rightarrow> (js_value \<Rightarrow> error + unit) \<Rightarrow> js_value \<Rightarrow> error + unit" where
  "ARRAY_validate max_arguments super_validate v =
     (if isArray v
      then (case getArrayDepth max_arguments v of
              Inl e \<Rightarrow> Inl e
            | Inr depth \<Rightarrow>
                if greater_than_1 depth
                then Inl (DataTypeValidationError ''CockroachDB does not support nested arrays.'')
                else super_validate v)
      else super_validate v)"

text \<open>
  The element type of an array, \<^verbatim>\<open>this.options.type\<close>, is a type name (a string) or a
  data type object. Of an object, \<^verbatim>\<open>escape\<close> reads which of the abstract classes
  STRING, TEXT and INTEGER it is an instance of (they are unrelated classes, so at most
  one), and calls its \<^verbatim>\<open>escape\<close> method, which may throw.
\<close>

datatype base_class = STRING | TEXT | INTEGER | OtherClass

record data_type =
  instance_of :: base_class
  escape :: "js_value \<Rightarrow> error + string"

datatype element_type = TypeName string | TypeObject data_type

fun isString :: "element_type \<Rightarrow> bool" where
  "isString (TypeName s) = True"
| "isString (TypeObject t) = False"

fun unambiguousType :: "element_type \<Rightarrow> bool" where
  "unambiguousType (TypeName s) = False"
| "unambiguousType (TypeObject t) =
     (instance_of t = STRING \<or> instance_of t = TEXT \<or> instance_of t = INTEGER)"

text \<open>\<^verbatim>\<open>values.map(f)\<close> for an \<open>f\<close> that may throw: the first error ends the loop.\<close>

fun map_throwing :: "('a \<Rightarrow> error + 'b) \<Rightarrow> 'a list \<Rightarrow> error + 'b list" where
  "map_throwing f [] = Inr []"
| "map_throwing f (x # xs) =
     (case f x of
        Inl e \<Rightarrow> Inl e
      | Inr y \<Rightarrow> (case map_throwing f xs of Inl e \<Rightarrow> Inl e | Inr ys \<Rightarrow> Inr (y # ys)))"

text \<open>\<^verbatim>\<open>pieces.join(',')\<close> on the texts of the elements.\<close>

fun join :: "string \<Rightarrow> string list \<Rightarrow> string" where
  "join sep [] = []"
| "join sep [x] = x"
| "join sep (x # y # ys) = x @ sep @ join sep (y # ys)"

text \<open>
  The text \<^verbatim>\<open>join\<close> gives an element that is not yet a string (the element type is a
  type name, so the values are joined as they are): empty for \<^verbatim>\<open>null\<close> and
  \<^verbatim>\<open>undefined\<close>, the language's \<open>ToString\<close> otherwise.
\<close>

definition join_text :: "(js_value \<Rightarrow> string) \<Rightarrow> js_value \<Rightarrow> string" where
  "join_text ToString v = (if v = JNull \<or> v = JUndefined then [] else ToString v)"

text \<open>
  \<^verbatim>\<open>mappedValues\<close>, as the texts \<^verbatim>\<open>join\<close> will see. \<^verbatim>\<open>attributeTypeToSql\<close> belongs
  to the abstract dialect and is a parameter of \<open>ARRAY_escape\<close>.
\<close>

fun mappedValues ::
    "(js_value \<Rightarrow> string) \<Rightarrow> element_type \<Rightarrow> js_value list \<Rightarrow> error + string list" where
  "mappedValues ToString (TypeName s) values = Inr (map (join_text ToString) values)"
| "mappedValues ToString (TypeObject t) values = map_throwing (escape t) values"

definition ARRAY_escape ::
    "(element_type \<Rightarrow> string) \<Rightarrow> (js_value \<Rightarrow> string) \<Rightarrow> element_type \<Rightarrow> js_value list
      \<Rightarrow> error + string" where
  "ARRAY_escape attributeTypeToSql ToString type values =
     (case mappedValues ToString type values of
        Inl e \<Rightarrow> Inl e
      | Inr mapped \<Rightarrow>
          (let cast = (if length mapped = 0 \<or> \<not> unambiguousType type
                       then ''::'' @ attributeTypeToSql type @ ''[]'' else [])
           in Inr (''ARRAY['' @ join '','' mapped @ '']'' @ cast)))"

section \<open>ENUM.toSql (data-types.ts, lines 253-281)\<close>

text \<open>
  The usage context of a type: absent, or attached to an attribute of a model, or to a
  column of a table. Either context leads to the query generator of the dialect, of
  which \<^verbatim>\<open>toSql\<close> asserts the class. A model gives its table name and its attributes
  by name; an attribute may name its column in \<^verbatim>\<open>field\<close>. Table names are of any type
  \<open>'t\<close> (a string or a name with a schema).
\<close>

datatype query_generator = CockroachDbQueryGenerator | OtherQueryGenerator

record sequelize_dialect =
  queryGenerator :: query_generator

record sequelize =
  sequelize_dialect :: sequelize_dialect

record attribute =
  field :: "string option"

record 't model =
  getTableName :: 't
  getAttributes :: "string \<rightharpoonup> attribute"

datatype 't usage_context =
    ModelContext "'t model" string sequelize
  | ColumnContext 't string sequelize

fun context_sequelize :: "'t usage_context \<Rightarrow> sequelize" where
  "context_sequelize (ModelContext m attributeName sq) = sq"
| "context_sequelize (ColumnContext tableName columnName sq) = sq"

text \<open>
  The table and column of a context. In a model context the attribute is looked up by
  name and \<^verbatim>\<open>attribute.field\<close> is read: on a missing attribute that read throws the
  engine's TypeError.
\<close>

fun table_and_column :: "'t usage_context \<Rightarrow> error + 't \<times> string" where
  "table_and_column (ModelContext m attributeName sq) =
     (case getAttributes m attributeName of
        None \<Rightarrow> Inl (TypeError ''Cannot read properties of undefined (reading 'field')'')
      | Some a \<Rightarrow>
          Inr (getTableName m, (case field a of None \<Rightarrow> attributeName | Some f \<Rightarrow> f)))"
| "table_and_column (ColumnContext tableName columnName sq) = Inr (tableName, columnName)"

text \<open>
  \<^verbatim>\<open>toSql\<close>; \<^verbatim>\<open>pgEnumName\<close> is a method of the query generator, which is not in the
  dialect's data types file, so it is a parameter.
\<close>

definition ENUM_toSql :: "('t \<Rightarrow> string \<Rightarrow> string) \<Rightarrow> 't usage_context option \<Rightarrow> error + string" where
  "ENUM_toSql pgEnumName usageContext =
     (case usageContext of
        None \<Rightarrow> Inl (Error
          ''Could not determine the name of this enum because it is not attached to an attribute or a column.'')
      | Some ctx \<Rightarrow>
          (case table_and_column ctx of
             Inl e \<Rightarrow> Inl e
           | Inr (tableName, columnName) \<Rightarrow>
               (if queryGenerator (sequelize_dialect (context_sequelize ctx)) = CockroachDbQueryGenerator
                then Inr (pgEnumName tableName columnName)
                else Inl (AssertionError ''expected queryGenerator to be PostgresQueryGenerator''))))"

section \<open>The capability descriptor (index.ts, lines 12-67)\<close>

text \<open>
  The object literal handed to \<^verbatim>\<open>AbstractDialect.extendSupport\<close>, key by key. Keys
  that are not identifiers of HOL, or that occur in more than one object, are renamed:
  \<^verbatim>\<open>'DEFAULT VALUES'\<close> is \<open>DEFAULT_VALUES\<close>, the keys of \<^verbatim>\<open>index\<close> carry the
  prefix \<open>index_\<close>, those of \<^verbatim>\<open>dataTypes\<close> the prefix \<open>supports_\<close>, and the keys
  \<^verbatim>\<open>infinity\<close>, \<^verbatim>\<open>NaN\<close> and \<^verbatim>\<open>unconstrained\<close> of a data type's descriptor the
  prefix \<open>temporal_\<close>, \<open>float_\<close> or \<open>decimal_\<close>.
\<close>

record index_supports =
  index_concurrently :: bool
  index_using :: nat
  index_where :: bool
  index_functionBased :: bool
  index_operator :: bool
  index_include :: bool

record inserts_supports =
  onConflictDoNothing :: string
  updateOnDuplicate :: string
  conflictFields :: bool

record temporal_supports =
  temporal_infinity :: bool

record float_supports =
  float_NaN :: bool
  float_infinity :: bool

record decimal_supports =
  decimal_unconstrained :: bool
  decimal_NaN :: bool
  decimal_infinity :: bool

record data_type_supports =
  supports_ARRAY :: bool
  supports_RANGE :: bool
  supports_GEOMETRY :: bool
  supports_GEOGRAPHY :: bool
  supports_JSON :: bool
  supports_JSONB :: bool
  supports_HSTORE :: bool
  supports_TSVECTOR :: bool
  supports_CITEXT :: bool
  supports_DATETIME :: temporal_supports
  supports_DATEONLY :: temporal_supports
  supports_FLOAT :: float_supports
  supports_REAL :: float_supports
  supports_DOUBLE :: float_supports
  supports_DECIMAL :: decimal_supports
  supports_CIDR :: bool
  supports_MACADDR :: bool
  supports_INET :: bool

record drop_table_supports =
  cascade :: bool

record supports =
  DEFAULT_VALUES :: bool
  ON_DUPLICATE_KEY :: bool
  ORDER_NULLS :: bool
  returnValues :: string
  bulkDefault :: bool
  schemas :: bool
  multiDatabases :: bool
  lock :: bool
  lockOf :: bool
  forShare :: string
  index :: index_supports
  inserts :: inserts_supports
  dataTypes :: data_type_supports
  jsonOperations :: bool
  REGEXP :: bool
  IREGEXP :: bool
  deferrableConstraints :: bool
  searchPath :: bool
  escapeStringConstants :: bool
  globalTimeZoneConfig :: bool
  dropTable :: drop_table_supports
  EXCEPTION :: bool

definition CockroachDbDialect_dataTypes :: data_type_supports where
  "CockroachDbDialect_dataTypes =
     \<lparr>supports_ARRAY = True, supports_RANGE = True, supports_GEOMETRY = True,
      supports_GEOGRAPHY = True, supports_JSON = True, supports_JSONB = True,
      supports_HSTORE = True, supports_TSVECTOR = True, supports_CITEXT = True,
      supports_DATETIME = \<lparr>temporal_infinity = True\<rparr>,
      supports_DATEONLY = \<lparr>temporal_infinity = True\<rparr>,
      supports_FLOAT = \<lparr>float_NaN = True, float_infinity = True\<rparr>,
      supports_REAL = \<lparr>float_NaN = True, float_infinity = True\<rparr>,
      supports_DOUBLE = \<lparr>float_NaN = True, float_infinity = True\<rparr>,
      supports_DECIMAL =
        \<lparr>decimal_unconstrained = True, decimal_NaN = True, decimal_infinity = True\<rparr>,
      supports_CIDR = True, supports_MACADDR = True, supports_INET = True\<rparr>"

definition CockroachDbDialect_supports :: supports where
  "CockroachDbDialect_supports =
     \<lparr>DEFAULT_VALUES = True, ON_DUPLICATE_KEY = False, ORDER_NULLS = True,
      returnValues = ''returning'', bulkDefault = True, schemas = True,
      multiDatabases = True, lock = True, lockOf = True, forShare = ''FOR SHARE'',
      index = \<lparr>index_concurrently = True, index_using = 2, index_where = True,
                index_functionBased = True, index_operator = True, index_include = True\<rparr>,
      inserts = \<lparr>onConflictDoNothing = '' ON CONFLICT DO NOTHING'',
                  updateOnDuplicate = '' ON CONFLICT DO UPDATE SET'', conflictFields = True\<rparr>,
      dataTypes = CockroachDbDialect_dataTypes,
      jsonOperations = True, REGEXP = True, IREGEXP = True, deferrableConstraints = True,
      searchPath = True, escapeStringConstants = True, globalTimeZoneConfig = True,
      dropTable = \<lparr>cascade = True\<rparr>, EXCEPTION = False\<rparr>"

text \<open>The name the constructor passes to the abstract dialect (index.ts, line 82).\<close>

definition CockroachDbDialect_name :: string where
  "CockroachDbDialect_name = ''cockroachdb''"

section \<open>The drop-database statement\<close>

text \<open>
  The statement the unit test expects of mssql for the database \<^verbatim>\<open>myDatabase\<close>, with
  and without the quoting of identifiers (drop-database-query.test.ts, lines 15 and
  23).
\<close>

definition mssql_drop_myDatabase :: string where
  "mssql_drop_myDatabase =
     ''IF EXISTS (SELECT * FROM sys.databases WHERE name = N'' @ [CHR 0x27] @ ''myDatabase''
       @ [CHR 0x27] @ '' ) BEGIN DROP DATABASE [myDatabase] ; END;''"

text \<open>
  Modelled from the spec: \<^verbatim>\<open>dropDatabaseQuery\<close> is a method of the query generators,
  none of which is among the dialect's files; only its unit test
  (drop-database-query.test.ts) is. The spec (4.4, 7 and 8) has the statement fail
  with an error that names the engine when the descriptor marks databases as
  unsupported. The test gives the message, \<^verbatim>\<open>Databases are not supported in <name>.\<close>,
  and the statements of the engines that support databases:
  \<^verbatim>\<open>DROP DATABASE IF EXISTS <quoted name>;\<close> on postgres, snowflake and cockroachdb,
  and on mssql a statement of its own, of which the test shows the one for
  \<^verbatim>\<open>myDatabase\<close>. \<open>databasesSupported\<close> is the descriptor's flag
  (\<^verbatim>\<open>multiDatabases\<close> in index.ts), \<open>quoteIdentifier\<close> the generator's quoting of an
  identifier (the identity when quoting is switched off), and \<open>mssqlStatement\<close> the
  statement of the mssql generator for a database other than the test's, about which
  neither the spec nor the test says anything.
\<close>

definition dropDatabaseQuery ::
    "string \<Rightarrow> bool \<Rightarrow> (string \<Rightarrow> string) \<Rightarrow> (string \<Rightarrow> string) \<Rightarrow> string
      \<Rightarrow> error + string" where
  "dropDatabaseQuery dialectName databasesSupported quoteIdentifier mssqlStatement database =
     (if \<not> databasesSupported
      then Inl (Error (''Databases are not supported in '' @ dialectName @ ''.''))
      else if dialectName = ''mssql''
      then Inr (if database = ''myDatabase'' then mssql_drop_myDatabase
                else mssqlStatement database)
      else Inr (''DROP DATABASE IF EXISTS '' @ quoteIdentifier database @ '';''))"

section \<open>The bind collector\<close>

text \<open>
  Modelled from the spec: \<^verbatim>\<open>createBindCollector\<close> (index.ts, lines 88-90) returns
  \<^verbatim>\<open>createSpecifiedOrderedBindCollector()\<close> of utils/sql, which is not among the
  files. The spec (3 and 4.3) describes a collector session as the ordered sequence of
  the values bound so far, scoped to one statement; a new collector has bound nothing.
\<close>

record 'v bind_collector =
  bound :: "'v list"

text \<open>
  Modelled from the spec: a fresh collector for one statement.
\<close>

definition createBindCollector :: "'v bind_collector" where
  "createBindCollector = \<lparr>bound = []\<rparr>"

text \<open>
  Modelled from the spec: \<^verbatim>\<open>bind(value) -> placeholderText\<close> in the positional
  strategy (\<^verbatim>\<open>$1, $2, ...\<close>): the value is appended and the placeholder is \<^verbatim>\<open>$\<close>
  followed by the number of values bound, this one included.
\<close>

definition bind :: "'v \<Rightarrow> 'v bind_collector \<Rightarrow> string \<times> 'v bind_collector" where
  "bind v c = (''$'' @ decimal (length (bound c) + 1), c\<lparr>bound := bound c @ [v]\<rparr>)"

text \<open>
  Modelled from the spec: \<^verbatim>\<open>finalize() -> orderedValueList\<close>.
\<close>

definition finalize :: "'v bind_collector \<Rightarrow> 'v list" where
  "finalize c = bound c"

text \<open>
  Modelled from the spec: a statement is composed of pieces of text and of bound
  values, in any interleaving; composing text does not touch the collector.
\<close>

datatype 'v fragment = Text string | Value 'v

text \<open>
  Modelled from the spec: composing a statement from its fragments, left to right,
  through one collector. The result is the SQL text, the placeholders \<^verbatim>\<open>bind\<close>
  returned in the order of the calls, and the collector afterwards.
\<close>

fun compose ::
    "'v fragment list \<Rightarrow> 'v bind_collector \<Rightarrow> (string \<times> string list) \<times> 'v bind_collector" where
  "compose [] c = (([], []), c)"
| "compose (Text t # fs) c =
     (case compose fs c of ((sql, placeholders), c') \<Rightarrow> ((t @ sql, placeholders), c'))"
| "compose (Value v # fs) c =
     (case bind v c of (p, c1) \<Rightarrow>
        (case compose fs c1 of ((sql, placeholders), c2) \<Rightarrow> ((p @ sql, p # placeholders), c2)))"

text \<open>The values of a statement's fragments, in order, and the number a placeholder carries.\<close>

fun values_of :: "'v fragment list \<Rightarrow> 'v list" where
  "values_of [] = []"
| "values_of (Text t # fs) = values_of fs"
| "values_of (Value v # fs) = v # values_of fs"

definition placeholder_number :: "string \<Rightarrow> nat" where
  "placeholder_number p = read_decimal (tl p)"

section \<open>Sample inputs\<close>

text \<open>
  Concrete arguments at which the theorems below are evaluated. \<open>accept_any\<close> stands
  for a base class whose \<^verbatim>\<open>validate\<close> accepts every value, the most permissive there
  can be.
\<close>

definition accept_any :: "js_value \<Rightarrow> error + unit" where
  "accept_any v = Inr ()"




fun sample_attributeTypeToSql :: "element_type \<Rightarrow> string" where
  "sample_attributeTypeToSql (TypeName s) = s"
| "sample_attributeTypeToSql (TypeObject t) =
     (if instance_of t = STRING then ''VARCHAR(255)'' else ''JSON'')"

fun sample_ToString :: "js_value \<Rightarrow> string" where
  "sample_ToString (JString s) = s"
| "sample_ToString v = ''?''"

fun sample_pgEnumName :: "string \<Rightarrow> string \<Rightarrow> string" where
  "sample_pgEnumName tableName columnName = ''enum_'' @ tableName @ ''_'' @ columnName"

text \<open>
  A text for the numbers that are not integers; no integer reaches it.
\<close>

definition sample_fraction_text :: "real \<Rightarrow> string" where
  "sample_fraction_text x = ''?''"

fun sample_format_j :: "string \<Rightarrow> string" where
  "sample_format_j v = [CHR 0x22] @ v @ [CHR 0x22]"

section \<open>Unsigned integers are promoted\<close>

text \<open>
  C6. The engine has no unsigned integers. \<^verbatim>\<open>SMALLINT.toSql()\<close> renders
  \<^verbatim>\<open>'INTEGER'\<close> when the unsigned option is set and \<^verbatim>\<open>'SMALLINT'\<close> when it is
  false or absent; \<^verbatim>\<open>INTEGER.toSql()\<close> renders \<^verbatim>\<open>'BIGINT'\<close> when it is set and
  \<^verbatim>\<open>'INTEGER'\<close> when it is false or absent. The other options play no part.
\<close>

theorem unsigned_promotes_to_next_wider_type:
  "SMALLINT_toSql (t\<lparr>options := (options t)\<lparr>unsigned := Some True\<rparr>\<rparr>) = ''INTEGER''
   \<and> INTEGER_toSql (t\<lparr>options := (options t)\<lparr>unsigned := Some True\<rparr>\<rparr>) = ''BIGINT''
   \<and> SMALLINT_toSql (t\<lparr>options := (options t)\<lparr>unsigned := Some False\<rparr>\<rparr>) = ''SMALLINT''
   \<and> SMALLINT_toSql (t\<lparr>options := (options t)\<lparr>unsigned := None\<rparr>\<rparr>) = ''SMALLINT''
   \<and> INTEGER_toSql (t\<lparr>options := (options t)\<lparr>unsigned := Some False\<rparr>\<rparr>) = ''INTEGER''
   \<and> INTEGER_toSql (t\<lparr>options := (options t)\<lparr>unsigned := None\<rparr>\<rparr>) = ''INTEGER''"
  by (simp add: SMALLINT_toSql_def INTEGER_toSql_def)

section \<open>A length option on a narrow integer is dropped\<close>

lemma removeUnsupportedIntegerOptions_with_length:
  "length_opt (options t) = Some n \<Longrightarrow>
     removeUnsupportedIntegerOptions t d =
       (t\<lparr>options := (options t)\<lparr>length_opt := None\<rparr>\<rparr>,
        d\<lparr>advisories := advisories d @
           [name d @ '' does not support '' @ getDataTypeId t
              @ '' with length specified. This options is ignored.'']\<rparr>)"
  by (simp add: removeUnsupportedIntegerOptions_def warnDataTypeIssue_def)

lemma removeUnsupportedIntegerOptions_without_length:
  "length_opt (options t) = None \<Longrightarrow> removeUnsupportedIntegerOptions t d = (t, d)"
  by (simp add: removeUnsupportedIntegerOptions_def)

text \<open>
  C5. A TINYINT or MEDIUMINT is constructed with a length option, and the check of the
  base class lets it through (it returns the type \<open>t'\<close> with the length still set, and
  the dialect \<open>d'\<close> with whatever the base class recorded). Then option checking
  succeeds, the resulting type is \<open>t'\<close> with the length option cleared and nothing
  else changed, and the advisories are those of \<open>d'\<close> followed by exactly one more,
  which names the dialect and the type. \<^verbatim>\<open>toSql()\<close> of the resulting type is
  \<^verbatim>\<open>'SMALLINT'\<close> for TINYINT and \<^verbatim>\<open>'INTEGER'\<close> for MEDIUMINT, the same text as before
  the option was dropped.
\<close>

theorem narrow_integer_length_dropped_with_one_advisory:
  assumes "length_opt (options t) = Some n"
    and "super_check t d = Inr (t', d')"
    and "length_opt (options t') = length_opt (options t)"
  shows "checkOptionSupport super_check t d =
           Inr (t'\<lparr>options := (options t')\<lparr>length_opt := None\<rparr>\<rparr>,
                d'\<lparr>advisories := advisories d' @
                   [name d' @ '' does not support '' @ getDataTypeId t'
                      @ '' with length specified. This options is ignored.'']\<rparr>)
         \<and> TINYINT_toSql (t'\<lparr>options := (options t')\<lparr>length_opt := None\<rparr>\<rparr>) = ''SMALLINT''
         \<and> TINYINT_toSql (t'\<lparr>options := (options t')\<lparr>length_opt := None\<rparr>\<rparr>) = TINYINT_toSql t
         \<and> MEDIUMINT_toSql (t'\<lparr>options := (options t')\<lparr>length_opt := None\<rparr>\<rparr>) = ''INTEGER''
         \<and> MEDIUMINT_toSql (t'\<lparr>options := (options t')\<lparr>length_opt := None\<rparr>\<rparr>) = MEDIUMINT_toSql t"
proof -
  from assms have len: "length_opt (options t') = Some n"
    by simp
  have "checkOptionSupport super_check t d = Inr (removeUnsupportedIntegerOptions t' d')"
    using assms(2) by (simp add: checkOptionSupport_def)
  then show ?thesis
    by (simp add: removeUnsupportedIntegerOptions_with_length [OF len]
        TINYINT_toSql_def MEDIUMINT_toSql_def)
qed

text \<open>
  The theorem at a TINYINT of length 3 on a dialect named cockroachdb with no advisory
  yet, the base check changing nothing (\<open>curry Inr\<close> returns the type and the dialect
  as they are): the length is gone, there is one advisory, and the type still renders
  \<^verbatim>\<open>'SMALLINT'\<close>.
\<close>

theorem narrow_integer_length_dropped_witness:
  "checkOptionSupport (curry Inr)
       \<lparr>getDataTypeId = ''TINYINT'',
        options = \<lparr>length_opt = Some 3, unsigned = None, zerofill = None\<rparr>\<rparr>
       \<lparr>name = ''cockroachdb'', advisories = []\<rparr>
     = Inr (\<lparr>getDataTypeId = ''TINYINT'',
             options = \<lparr>length_opt = None, unsigned = None, zerofill = None\<rparr>\<rparr>,
            \<lparr>name = ''cockroachdb'', advisories =
              [''cockroachdb does not support TINYINT with length specified. This options is ignored.'']\<rparr>)
   \<and> TINYINT_toSql \<lparr>getDataTypeId = ''TINYINT'',
         options = \<lparr>length_opt = None, unsigned = None, zerofill = None\<rparr>\<rparr> = ''SMALLINT''"
  using narrow_integer_length_dropped_with_one_advisory
    [of "\<lparr>getDataTypeId = ''TINYINT'',
           options = \<lparr>length_opt = Some 3, unsigned = None, zerofill = None\<rparr>\<rparr>"
        3 "curry Inr" "\<lparr>name = ''cockroachdb'', advisories = []\<rparr>"
        "\<lparr>getDataTypeId = ''TINYINT'',
           options = \<lparr>length_opt = Some 3, unsigned = None, zerofill = None\<rparr>\<rparr>"
        "\<lparr>name = ''cockroachdb'', advisories = []\<rparr>"]
  by simp

section \<open>Decimal text is exact\<close>

lemma of_char_digit_char: "d < 10 \<Longrightarrow> (of_char (digit_char d) :: nat) = 48 + d"
proof -
  assume "d < 10"
  then have "d \<in> {0, 1, 2, 3, 4, 5, 6, 7, 8, 9}"
    by auto
  then show ?thesis
    by (auto simp add: digit_char_def)
qed

lemma digit_value_digit_char: "d < 10 \<Longrightarrow> digit_value (digit_char d) = d"
  by (simp add: digit_value_def of_char_digit_char)

lemma is_digit_digit_char: "d < 10 \<Longrightarrow> is_digit (digit_char d)"
  by (simp add: is_digit_def of_char_digit_char)

lemma read_decimal_snoc: "read_decimal (s @ [c]) = 10 * read_decimal s + digit_value c"
  by (simp add: read_decimal_def)

lemma read_decimal_decimal: "read_decimal (decimal n) = n"
proof (induction n rule: decimal.induct)
  case (1 n)
  show ?case
  proof (cases "n < 10")
    case True
    then show ?thesis
      by (simp add: decimal.simps [of n] read_decimal_def digit_value_digit_char)
  next
    case False
    with "1" have "read_decimal (decimal (n div 10)) = n div 10"
      by simp
    with False show ?thesis
      by (simp add: decimal.simps [of n] read_decimal_snoc digit_value_digit_char)
  qed
qed

lemma decimal_inj: "decimal m = decimal n \<Longrightarrow> m = n"
  by (metis read_decimal_decimal)

lemma decimal_nonempty: "decimal n \<noteq> []"
  by (subst decimal.simps) simp

lemma decimal_all_digits: "list_all is_digit (decimal n)"
proof (induction n rule: decimal.induct)
  case (1 n)
  show ?case
  proof (cases "n < 10")
    case True
    then show ?thesis
      by (simp add: decimal.simps [of n] is_digit_digit_char)
  next
    case False
    with "1" show ?thesis
      by (simp add: decimal.simps [of n] is_digit_digit_char)
  qed
qed

lemma hd_decimal_not_minus: "hd (decimal n) \<noteq> CHR ''-''"
proof -
  have "is_digit (hd (decimal n))"
    using decimal_all_digits [of n] decimal_nonempty [of n]
    by (cases "decimal n") simp_all
  then show ?thesis
    by (auto simp add: is_digit_def)
qed

lemma read_integer_BigInt_toString: "read_integer (BigInt_toString i) = i"
proof (cases "i < 0")
  case True
  then show ?thesis
    by (simp add: BigInt_toString_def read_decimal_decimal)
next
  case False
  obtain c cs where d: "decimal (nat i) = c # cs"
    using decimal_nonempty [of "nat i"] by (cases "decimal (nat i)") auto
  with hd_decimal_not_minus [of "nat i"] have "c \<noteq> CHR ''-''"
    by simp
  with False d show ?thesis
    using read_decimal_decimal [of "nat i"] by (simp add: BigInt_toString_def)
qed

text \<open>Rules that compute \<open>decimal\<close> on a numeral, digit by digit.\<close>

lemma decimal_numeral:
  "decimal (numeral k) =
     (if numeral k < (10::nat) then [digit_char (numeral k)]
      else decimal (numeral k div 10) @ [digit_char (numeral k mod 10)])"
  by (rule decimal.simps)

lemma decimal_0: "decimal 0 = ''0''"
  by (simp add: decimal.simps [of 0] digit_char_def)

lemma decimal_Suc_0: "decimal (Suc 0) = ''1''"
  by (simp add: decimal.simps [of "Suc 0"] digit_char_def)

lemmas decimal_eval = decimal_0 decimal_Suc_0 decimal_numeral digit_char_def

section \<open>INTEGER.sanitize keeps large BigInts exact, and numbers as String has them\<close>

lemma MAX_SAFE_INTEGER_is_2_53_minus_1: "MAX_SAFE_INTEGER = 2 ^ 53 - 1"
  by (simp add: MAX_SAFE_INTEGER_def)

text \<open>
  C2, as the code has it. For every BigInt \<open>v\<close>: when \<open>v\<close> is larger than
  \<^verbatim>\<open>Number.MAX_SAFE_INTEGER\<close>, \<^verbatim>\<open>sanitize\<close> returns the decimal text of \<open>v\<close>, and
  otherwise \<open>v\<close> itself. That text is exact: reading it back as a decimal numeral
  gives \<open>v\<close>, whatever its size. In particular every BigInt that is zero or negative,
  \<open>- int n\<close> for any \<open>n\<close>, is returned unchanged. For a number whose value is the
  integer \<open>i\<close>: up to \<^verbatim>\<open>Number.MAX_SAFE_INTEGER\<close> it is returned unchanged, and above
  it the result is \<^verbatim>\<open>String\<close> of the number, the shortest numeral that is read back as
  the same double, in exponent notation from \<open>10 ^ 21\<close> on.
\<close>

theorem integer_sanitize_bigint_exact_number_shortest:
  "INTEGER_sanitize fraction_text (BigInt v) =
     (if v > MAX_SAFE_INTEGER then JString (BigInt_toString v) else JBigInt v)
   \<and> read_integer (BigInt_toString v) = v
   \<and> INTEGER_sanitize fraction_text (BigInt (- int n)) = JBigInt (- int n)
   \<and> INTEGER_sanitize fraction_text (Number (Finite (real_of_int i))) =
       (if i > MAX_SAFE_INTEGER then JString (Number_toString_integer (nat i))
        else JNumber (Finite (real_of_int i)))"
  by (simp add: INTEGER_sanitize_def read_integer_BigInt_toString MAX_SAFE_INTEGER_def)

text \<open>Evaluating the rounding and the shortest numeral at \<open>10 ^ 21\<close>, which is a double.\<close>

lemma ulp_numeral:
  "ulp (numeral k) = (if numeral k < (2::nat) ^ 53 then 1 else 2 * ulp (numeral k div 2))"
  by (rule ulp.simps)

lemma round_double_1e21: "round_double 1000000000000000000000 = 1000000000000000000000"
  by (simp add: round_double_def Let_def ulp_numeral)

lemma round_double_2e21: "round_double 2000000000000000000000 = 2000000000000000000000"
  by (simp add: round_double_def Let_def ulp_numeral)

lemma decimal_1e21: "decimal 1000000000000000000000 = ''1000000000000000000000''"
  by (simp add: decimal_eval)

lemma shortest_1e21: "shortest 1000000000000000000000 (Suc 0) = 1000000000000000000000"
  by (simp add: shortest.simps [of 1000000000000000000000 "Suc 0"] decimal_1e21 Let_def
      round_double_1e21 round_double_2e21)

lemma Number_toString_integer_1e21: "Number_toString_integer 1000000000000000000000 = ''1e+21''"
proof -
  have n: "length (decimal (shortest 1000000000000000000000 (Suc 0))) = 22"
    by (simp add: shortest_1e21 decimal_1e21)
  have s: "strip_zeros (decimal (shortest 1000000000000000000000 (Suc 0))) = ''1''"
    by (simp add: shortest_1e21 decimal_1e21 strip_zeros_def)
  have d: "decimal 21 = ''21''"
    by (simp add: decimal_eval)
  show ?thesis
    unfolding Number_toString_integer_def Let_def One_nat_def n s
    by (simp add: d)
qed

text \<open>
  The claim has every integer above the safe range returned as its exact decimal
  string. The number \<open>10 ^ 21\<close> is an integer, a double and above the safe range; its
  exact decimal string is a one followed by 21 zeros, and \<^verbatim>\<open>sanitize\<close> returns
  \<^verbatim>\<open>1e+21\<close>.
\<close>

theorem integer_sanitize_number_counterexample:
  "round_double 1000000000000000000000 = 1000000000000000000000
   \<and> greater_than (Number (Finite 1000000000000000000000)) MAX_SAFE_INTEGER
   \<and> INTEGER_sanitize sample_fraction_text (Number (Finite 1000000000000000000000))
       = JString ''1e+21''
   \<and> BigInt_toString 1000000000000000000000 = ''1000000000000000000000''
   \<and> INTEGER_sanitize sample_fraction_text (Number (Finite 1000000000000000000000))
       \<noteq> JString ''1000000000000000000000''"
  by (simp add: INTEGER_sanitize_def MAX_SAFE_INTEGER_def round_double_1e21
      Number_toString_integer_1e21 BigInt_toString_def decimal_1e21)

text \<open>
  Below \<open>10 ^ 21\<close> the text of a number is a plain numeral, and still not the exact
  one: \<open>2 ^ 60\<close> is 1152921504606846976, and \<^verbatim>\<open>String\<close> gives it 16 significant
  digits and three zeros.
\<close>

lemma shortest_numeral:
  "shortest (numeral m) k =
     (let D = length (decimal (numeral m)) in
      if D \<le> k then numeral m
      else
        (let p = 10 ^ (D - k); lo = (numeral m div p) * p; hi = lo + p;
             lo_ok = (round_double lo = numeral m); hi_ok = (round_double hi = numeral m) in
         if lo_ok \<and> hi_ok
         then (if numeral m - lo < hi - numeral m then lo
               else if hi - numeral m < numeral m - lo then hi
               else if even (numeral m div p) then lo else hi)
         else if lo_ok then lo
         else if hi_ok then hi
         else shortest (numeral m) (k + 1)))"
  by (rule shortest.simps)

lemma decimal_2_60: "decimal 1152921504606846976 = ''1152921504606846976''"
  by (simp add: decimal_eval)

lemma shortest_2_60: "shortest 1152921504606846976 (Suc 0) = 1152921504606847000"
  by (simp add: shortest_numeral decimal_2_60 Let_def round_double_def ulp_numeral)

lemma Number_toString_integer_2_60:
  "Number_toString_integer 1152921504606846976 = ''1152921504606847000''"
  unfolding Number_toString_integer_def Let_def One_nat_def shortest_2_60
  by (simp add: decimal_eval)

lemma integer_sanitize_2_60:
  "INTEGER_sanitize fraction_text (Number (Finite 1152921504606846976))
     = JString ''1152921504606847000''"
  by (simp add: INTEGER_sanitize_def MAX_SAFE_INTEGER_def Number_toString_integer_2_60)

text \<open>
  At the first BigInt past the safe range, \<open>2 ^ 53\<close>, at the last one inside it, and
  at a negative BigInt far outside it.
\<close>

lemma integer_sanitize_examples:
  "INTEGER_sanitize fraction_text (BigInt 9007199254740992) = JString ''9007199254740992''"
  "INTEGER_sanitize fraction_text (BigInt 9007199254740991) = JBigInt 9007199254740991"
  "INTEGER_sanitize fraction_text (BigInt (- 123456789012345678901234567890))
     = JBigInt (- 123456789012345678901234567890)"
  by (simp_all add: INTEGER_sanitize_def MAX_SAFE_INTEGER_def BigInt_toString_def decimal_eval)

text \<open>Any finite number inside the safe range, integer or not, is returned as it is.\<close>

lemma integer_sanitize_number:
  "INTEGER_sanitize fraction_text (Number (Finite x)) =
     (if x > 9007199254740991 then JString (Number_toString fraction_text (Finite x))
      else JNumber (Finite x))"
  by (simp add: INTEGER_sanitize_def MAX_SAFE_INTEGER_def)

section \<open>The integer pattern of BIGINT\<close>

text \<open>The matcher decides membership in the language of the pattern.\<close>

lemma lang_ThenI: "u \<in> lang r \<Longrightarrow> v \<in> lang s \<Longrightarrow> u @ v \<in> lang (Then r s)"
  by auto

lemma star_cons_split:
  "w \<in> star A \<Longrightarrow> w = c # s \<Longrightarrow> \<exists>u v. s = u @ v \<and> c # u \<in> A \<and> v \<in> star A"
proof (induction arbitrary: rule: star.induct)
  case star_empty
  then show ?case by simp
next
  case (star_more u v)
  show ?case
  proof (cases u)
    case Nil
    with star_more show ?thesis by simp
  next
    case (Cons a u')
    with star_more.prems have "a = c" and "s = u' @ v" by simp_all
    with star_more.hyps Cons show ?thesis by blast
  qed
qed

lemma nullable_lang: "nullable r \<longleftrightarrow> [] \<in> lang r"
  by (induction r) (auto intro: star_empty)

lemma lang_deriv: "s \<in> lang (deriv c r) \<longleftrightarrow> c # s \<in> lang r"
proof (induction r arbitrary: s)
  case (Then r1 r2)
  show ?case
  proof
    assume "s \<in> lang (deriv c (Then r1 r2))"
    then consider u v where "s = u @ v" "u \<in> lang (deriv c r1)" "v \<in> lang r2"
      | "nullable r1" "s \<in> lang (deriv c r2)"
      by (auto split: if_splits)
    then show "c # s \<in> lang (Then r1 r2)"
    proof cases
      case 1
      then have "c # u \<in> lang r1" using Then.IH(1) by simp
      then have "(c # u) @ v \<in> lang (Then r1 r2)" using 1(3) by (rule lang_ThenI)
      with 1 show ?thesis by simp
    next
      case 2
      then have "[] \<in> lang r1" "c # s \<in> lang r2"
        using Then.IH(2) by (simp_all add: nullable_lang)
      then have "[] @ (c # s) \<in> lang (Then r1 r2)" by (rule lang_ThenI)
      then show ?thesis by simp
    qed
  next
    assume "c # s \<in> lang (Then r1 r2)"
    then obtain u v where uv: "c # s = u @ v" "u \<in> lang r1" "v \<in> lang r2"
      by auto
    show "s \<in> lang (deriv c (Then r1 r2))"
    proof (cases u)
      case Nil
      with uv have "nullable r1" "s \<in> lang (deriv c r2)"
        using Then.IH(2) by (simp_all add: nullable_lang)
      then show ?thesis by simp
    next
      case (Cons a u')
      with uv have "a = c" "s = u' @ v" by simp_all
      moreover from Cons uv \<open>a = c\<close> have "u' \<in> lang (deriv c r1)"
        using Then.IH(1) by simp
      ultimately show ?thesis using uv(3) by auto
    qed
  qed
next
  case (Many r)
  show ?case
  proof
    assume "s \<in> lang (deriv c (Many r))"
    then obtain u v where "s = u @ v" "u \<in> lang (deriv c r)" "v \<in> star (lang r)"
      by auto
    then have "(c # u) @ v \<in> star (lang r)"
      using Many.IH by (intro star_more) simp_all
    with \<open>s = u @ v\<close> show "c # s \<in> lang (Many r)" by simp
  next
    assume "c # s \<in> lang (Many r)"
    then have "c # s \<in> star (lang r)" by simp
    from star_cons_split [OF this refl]
    obtain u v where "s = u @ v" "c # u \<in> lang r" "v \<in> star (lang r)" by blast
    then show "s \<in> lang (deriv c (Many r))"
      using Many.IH by auto
  qed
qed auto

lemma regex_test_lang: "regex_test r s \<longleftrightarrow> s \<in> lang r"
  by (induction s arbitrary: r) (simp_all add: nullable_lang lang_deriv)

lemma in_range_digit: "in_range CHR ''0'' CHR ''9'' c = is_digit c"
  by (simp add: in_range_def is_digit_def)

lemma star_digits: "ds \<in> star {[c] | c. is_digit c} \<longleftrightarrow> list_all is_digit ds"
proof
  assume "ds \<in> star {[c] | c. is_digit c}"
  then show "list_all is_digit ds"
    by (induction rule: star.induct) auto
next
  assume "list_all is_digit ds"
  then show "ds \<in> star {[c] | c. is_digit c}"
  proof (induction ds)
    case Nil
    show ?case by (rule star_empty)
  next
    case (Cons c ds)
    then have "[c] \<in> {[c] | c. is_digit c}" "ds \<in> star {[c] | c. is_digit c}" by simp_all
    then have "[c] @ ds \<in> star {[c] | c. is_digit c}" by (rule star_more)
    then show ?case by simp
  qed
qed

lemma lang_OneOrMore_digits:
  "ds \<in> lang (OneOrMore (Between CHR ''0'' CHR ''9'')) \<longleftrightarrow> ds \<noteq> [] \<and> list_all is_digit ds"
proof -
  have "ds \<in> lang (OneOrMore (Between CHR ''0'' CHR ''9''))
    \<longleftrightarrow> (\<exists>u v. ds = u @ v \<and> (\<exists>c. u = [c] \<and> is_digit c) \<and> list_all is_digit v)"
    by (simp add: OneOrMore_def in_range_digit star_digits)
  also have "\<dots> \<longleftrightarrow> (\<exists>c v. ds = c # v \<and> is_digit c \<and> list_all is_digit v)"
  proof
    assume "\<exists>u v. ds = u @ v \<and> (\<exists>c. u = [c] \<and> is_digit c) \<and> list_all is_digit v"
    then show "\<exists>c v. ds = c # v \<and> is_digit c \<and> list_all is_digit v"
      by auto
  next
    assume "\<exists>c v. ds = c # v \<and> is_digit c \<and> list_all is_digit v"
    then obtain c v where "ds = [c] @ v" "is_digit c" "list_all is_digit v"
      by auto
    then show "\<exists>u v. ds = u @ v \<and> (\<exists>c. u = [c] \<and> is_digit c) \<and> list_all is_digit v"
      by blast
  qed
  also have "\<dots> \<longleftrightarrow> ds \<noteq> [] \<and> list_all is_digit ds"
    by (cases ds) auto
  finally show ?thesis .
qed

lemma lang_sign: "sign \<in> lang (Optional (OneOf ''-+'')) \<longleftrightarrow> sign = [] \<or> sign = ''-'' \<or> sign = ''+''"
  by (auto simp add: Optional_def)

lemma integer_pattern_lang: "s \<in> lang integer_pattern \<longleftrightarrow> optionally_signed_digits s"
  unfolding integer_pattern_def optionally_signed_digits_def lang.simps(5) mem_Collect_eq
  by (simp only: lang_sign lang_OneOrMore_digits)

lemma regex_test_integer_pattern: "regex_test integer_pattern s = optionally_signed_digits s"
  by (simp add: regex_test_lang integer_pattern_lang)

text \<open>
  C10. \<^verbatim>\<open>$stringify\<close> returns the string unchanged when it is an optionally signed
  sequence of decimal digits. Otherwise it raises the typed data validation error (not
  a plain \<^verbatim>\<open>Error\<close>), whose message is the \<^verbatim>\<open>%j\<close> rendering of the offending value
  followed by \<^verbatim>\<open>is not a valid integer\<close>.
\<close>

theorem bigint_stringify_accepts_exactly_signed_digits:
  "BIGINT_stringify format_j v =
     (if optionally_signed_digits v then Inr v
      else Inl (DataTypeValidationError (format_j v @ '' is not a valid integer'')))"
  by (simp add: BIGINT_stringify_def regex_test_integer_pattern)

text \<open>
  The function on four strings: two integers, a string with a letter, and the empty
  string.
\<close>

lemma bigint_stringify_examples:
  "BIGINT_stringify sample_format_j ''-123'' = Inr ''-123''"
  "BIGINT_stringify sample_format_j ''+9007199254740993'' = Inr ''+9007199254740993''"
  "BIGINT_stringify sample_format_j ''12a'' =
     Inl (DataTypeValidationError (CHR 0x22 # ''12a'' @ [CHR 0x22] @ '' is not a valid integer''))"
  "BIGINT_stringify sample_format_j [] =
     Inl (DataTypeValidationError ([CHR 0x22, CHR 0x22] @ '' is not a valid integer''))"
  by (simp_all add: BIGINT_stringify_def integer_pattern_def Optional_def OneOrMore_def
      in_range_def)

text \<open>
  The decimal text \<^verbatim>\<open>sanitize\<close> produces for a large integer is one \<^verbatim>\<open>$stringify\<close>
  accepts.
\<close>

lemma BigInt_toString_is_signed_digits: "optionally_signed_digits (BigInt_toString i)"
proof (cases "i < 0")
  case True
  have "BigInt_toString i = ''-'' @ decimal (nat (- i))"
    using True by (simp add: BigInt_toString_def)
  then show ?thesis
    unfolding optionally_signed_digits_def
    using decimal_nonempty decimal_all_digits by blast
next
  case False
  have "BigInt_toString i = [] @ decimal (nat i)"
    using False by (simp add: BigInt_toString_def)
  then show ?thesis
    unfolding optionally_signed_digits_def
    using decimal_nonempty decimal_all_digits by blast
qed

section \<open>DATE at the infinities\<close>

text \<open>Any value other than the two infinities goes to the base class.\<close>

lemma DATE_validate_delegates:
  "\<not> strict_equals_number v PosInfinity \<Longrightarrow> \<not> strict_equals_number v NegInfinity \<Longrightarrow>
     DATE_validate super_validate v = super_validate v"
  by (simp add: DATE_validate_def)

text \<open>
  C1, as the code has it. The descriptor of the dialect declares
  \<^verbatim>\<open>DATETIME: { infinity: true }\<close>, and yet \<^verbatim>\<open>DATE.validate\<close> rejects positive and
  negative infinity with a data validation error, before the base class is asked and
  whatever it would answer. \<^verbatim>\<open>DATE.toBindableValue\<close>, when it is handed one of the
  infinities, renders the largest and the smallest timestamp of the engine,
  \<^verbatim>\<open>294276-12-31 23:59:59.999999+00:00\<close> and \<^verbatim>\<open>-4713-11-24 00:00:00+00:00\<close>, without
  asking the base class.
\<close>

theorem date_infinity_rejected_by_validate:
  "DATE_validate super_validate (JNumber PosInfinity) =
     Inl (DataTypeValidationError
       ''CockroachDB does not support negative and positive infitnity values in date'')
   \<and> DATE_validate super_validate (JNumber NegInfinity) =
     Inl (DataTypeValidationError
       ''CockroachDB does not support negative and positive infitnity values in date'')
   \<and> DATE_toBindableValue super_toBindableValue (JNumber PosInfinity)
       = ''294276-12-31 23:59:59.999999+00:00''
   \<and> DATE_toBindableValue super_toBindableValue (JNumber NegInfinity)
       = ''-4713-11-24 00:00:00+00:00''
   \<and> temporal_infinity (supports_DATETIME (dataTypes CockroachDbDialect_supports)) = True"
  by (simp add: DATE_validate_def DATE_toBindableValue_def CockroachDbDialect_supports_def
      CockroachDbDialect_dataTypes_def)

text \<open>
  The claim has \<^verbatim>\<open>validate\<close> accept an infinite date on this dialect because the
  descriptor declares infinity support. At positive infinity, with a base class that
  accepts everything, \<^verbatim>\<open>validate\<close> does not return: it raises the validation error.
\<close>

theorem date_infinity_accepted_counterexample:
  "temporal_infinity (supports_DATETIME (dataTypes CockroachDbDialect_supports))
   \<and> accept_any (JNumber PosInfinity) = Inr ()
   \<and> DATE_validate accept_any (JNumber PosInfinity) \<noteq> Inr ()
   \<and> DATE_validate accept_any (JNumber PosInfinity) =
       Inl (DataTypeValidationError
         ''CockroachDB does not support negative and positive infitnity values in date'')"
  by (simp add: DATE_validate_def accept_any_def CockroachDbDialect_supports_def
      CockroachDbDialect_dataTypes_def)

section \<open>Nested arrays, large arrays and sparse arrays\<close>

text \<open>The depth of a value that is not an array, and of a row of such values.\<close>

lemma getArrayDepth_not_array: "\<not> isArray v \<Longrightarrow> getArrayDepth max_args v = Inr (Some 0)"
  by (cases v) simp_all

lemma map_getArrayDepth_flat:
  "list_all (\<lambda>v. \<not> isArray v) vs \<Longrightarrow>
     map_getArrayDepth max_args (map Some vs) = Inr (map (\<lambda>v. Some 0) vs)"
  by (induction vs) (simp_all add: getArrayDepth_not_array)

lemma Math_max_0_zeros: "Math_max_0 (map (\<lambda>v. Some 0) vs) = Some 0"
  unfolding Math_max_0_def by (induction vs) simp_all

text \<open>
  A flat array without holes that the engine can spread goes to the base class, which
  validates the elements.
\<close>

lemma array_validate_flat_within_limit:
  "list_all (\<lambda>v. \<not> isArray v) vs \<Longrightarrow> length vs < max_args \<Longrightarrow>
     ARRAY_validate max_args super_validate (JArray (map Some vs)) = super_validate (JArray (map Some vs))"
  by (simp add: ARRAY_validate_def map_getArrayDepth_flat Math_max_0_zeros)

text \<open>A flat array without holes that is too long to spread never reaches the base class.\<close>

lemma array_validate_flat_beyond_limit:
  "list_all (\<lambda>v. \<not> isArray v) vs \<Longrightarrow> max_args \<le> length vs \<Longrightarrow>
     ARRAY_validate max_args super_validate (JArray (map Some vs))
       = Inl (RangeError ''Maximum call stack size exceeded'')"
  by (simp add: ARRAY_validate_def map_getArrayDepth_flat)

text \<open>
  The spec's example \<^verbatim>\<open>[[1,2],[3,4]]\<close> is rejected on an engine that takes three
  arguments or more, and the flat array \<^verbatim>\<open>[1,2]\<close> passes when the base class accepts
  it.
\<close>

lemma array_validate_examples:
  "ARRAY_validate (3 + k) super_validate
     (JArray [Some (JArray [Some (JNumber (Finite 1)), Some (JNumber (Finite 2))]),
              Some (JArray [Some (JNumber (Finite 3)), Some (JNumber (Finite 4))])])
     = Inl (DataTypeValidationError ''CockroachDB does not support nested arrays.'')"
  "ARRAY_validate (3 + k) accept_any
     (JArray [Some (JNumber (Finite 1)), Some (JNumber (Finite 2))]) = Inr ()"
  by (simp_all add: ARRAY_validate_def Math_max_0_def accept_any_def)

text \<open>A value that is not an array goes to the base class as it is.\<close>

lemma array_validate_not_array:
  "\<not> isArray v \<Longrightarrow> ARRAY_validate max_args super_validate v = super_validate v"
  by (simp add: ARRAY_validate_def)

text \<open>
  C4, where the code departs from it. (1) A flat array of strings with as many
  elements as the engine takes arguments, or more, is not handed to the base class:
  spreading it into \<^verbatim>\<open>Math.max\<close> throws a RangeError, which is not a data validation
  error. (2) The sparse array \<^verbatim>\<open>[ , [1]]\<close> has an array as an element, and yet the
  guard of \<^verbatim>\<open>validate\<close> does not raise its error: the hole makes the depth NaN,
  \<^verbatim>\<open>depth > 1\<close> is false, and the array goes to the base class as if it were flat,
  so that \<^verbatim>\<open>validate\<close> fails only if the base class rejects it.
\<close>

theorem array_validate_misses_large_and_sparse_arrays:
  "ARRAY_validate (length ss) super_validate (JArray (map (\<lambda>s. Some (JString s)) ss))
     = Inl (RangeError ''Maximum call stack size exceeded'')
   \<and> ARRAY_validate (3 + k) super_validate
        (JArray [None, Some (JArray [Some (JNumber (Finite 1))])])
     = super_validate (JArray [None, Some (JArray [Some (JNumber (Finite 1))])])"
proof
  have "list_all (\<lambda>v. \<not> isArray v) (map JString ss)"
    by (induction ss) simp_all
  from array_validate_flat_beyond_limit [OF this, of "length ss" super_validate]
  show "ARRAY_validate (length ss) super_validate (JArray (map (\<lambda>s. Some (JString s)) ss))
     = Inl (RangeError ''Maximum call stack size exceeded'')"
    by (simp add: comp_def)
next
  show "ARRAY_validate (3 + k) super_validate
        (JArray [None, Some (JArray [Some (JNumber (Finite 1))])])
     = super_validate (JArray [None, Some (JArray [Some (JNumber (Finite 1))])])"
    by (simp add: ARRAY_validate_def Math_max_0_def)
qed

text \<open>
  A flat array of 130000 strings, on an engine that takes at most that many arguments
  in a call.
\<close>

lemma array_validate_130000_strings:
  "ARRAY_validate 130000 super_validate (JArray (replicate 130000 (Some (JString ''a''))))
     = Inl (RangeError ''Maximum call stack size exceeded'')"
proof -
  have "list_all (\<lambda>v. \<not> isArray v) (replicate 130000 (JString ''a''))"
    by (simp add: list_all_iff)
  from array_validate_flat_beyond_limit [OF this, of 130000 super_validate]
  show ?thesis
    by simp
qed

section \<open>The cast of an array literal\<close>




lemma map_throwing_Inl:
  "map_throwing f xs = Inl e \<Longrightarrow> \<exists>x\<in>set xs. f x = Inl e"
  by (induction xs) (auto split: sum.splits)


text \<open>An element that cannot be escaped fails the whole rendering.\<close>

lemma array_escape_error:
  "map_throwing (escape t) values = Inl e \<Longrightarrow>
     ARRAY_escape attributeTypeToSql ToString (TypeObject t) values = Inl e"
  by (simp add: ARRAY_escape_def)


text \<open>
  An array whose element type is given by name: the strings are not quoted, and
  \<^verbatim>\<open>null\<close> and \<^verbatim>\<open>undefined\<close> leave nothing between their commas.
\<close>

lemma array_escape_type_name_example:
  "ARRAY_escape sample_attributeTypeToSql sample_ToString (TypeName ''TEXT'')
     [JString ''a'', JNull, JUndefined, JString ''b''] = Inr ''ARRAY[a,,,b]::TEXT[]''"
  by (simp add: ARRAY_escape_def join_text_def)


section \<open>The name of an enum type\<close>

text \<open>
  C7. Without a usage context \<^verbatim>\<open>toSql\<close> fails: it cannot determine the name of the
  enum. With a context whose query generator is the dialect's own (index.ts, line 84,
  constructs the dialect with one), \<^verbatim>\<open>toSql\<close> is \<^verbatim>\<open>pgEnumName\<close> of the owning table
  and column: those of a column context; for a model context whose attribute exists,
  the table of the model and the attribute's \<^verbatim>\<open>field\<close>, or the attribute's name when
  it has no \<^verbatim>\<open>field\<close>.
\<close>

theorem enum_toSql_needs_context:
  "ENUM_toSql pgEnumName None = Inl (Error
      ''Could not determine the name of this enum because it is not attached to an attribute or a column.'')
   \<and> (queryGenerator (sequelize_dialect sq) = CockroachDbQueryGenerator \<longrightarrow>
        ENUM_toSql pgEnumName (Some (ColumnContext tableName columnName sq))
          = Inr (pgEnumName tableName columnName))
   \<and> (queryGenerator (sequelize_dialect sq) = CockroachDbQueryGenerator \<longrightarrow>
        getAttributes m attributeName = Some a \<longrightarrow>
        ENUM_toSql pgEnumName (Some (ModelContext m attributeName sq))
          = Inr (pgEnumName (getTableName m)
                   (case field a of None \<Rightarrow> attributeName | Some f \<Rightarrow> f)))"
  by (simp add: ENUM_toSql_def)

text \<open>
  A column context, and a model context whose attribute names another column.
\<close>

theorem enum_toSql_witness:
  "queryGenerator (sequelize_dialect
       \<lparr>sequelize_dialect = \<lparr>queryGenerator = CockroachDbQueryGenerator\<rparr>\<rparr>)
     = CockroachDbQueryGenerator
   \<and> ENUM_toSql sample_pgEnumName (Some (ColumnContext ''users'' ''mood''
        \<lparr>sequelize_dialect = \<lparr>queryGenerator = CockroachDbQueryGenerator\<rparr>\<rparr>))
      = Inr ''enum_users_mood''
   \<and> [''mood'' \<mapsto> \<lparr>field = Some ''mood_col''\<rparr>] ''mood'' = Some \<lparr>field = Some ''mood_col''\<rparr>
   \<and> ENUM_toSql sample_pgEnumName (Some (ModelContext
        \<lparr>getTableName = ''users'', getAttributes = [''mood'' \<mapsto> \<lparr>field = Some ''mood_col''\<rparr>]\<rparr>
        ''mood'' \<lparr>sequelize_dialect = \<lparr>queryGenerator = CockroachDbQueryGenerator\<rparr>\<rparr>))
      = Inr ''enum_users_mood_col''"
  using enum_toSql_needs_context [of sample_pgEnumName
      "\<lparr>sequelize_dialect = \<lparr>queryGenerator = CockroachDbQueryGenerator\<rparr>\<rparr>"
      "''users''" "''mood''"
      "\<lparr>getTableName = ''users'', getAttributes = [''mood'' \<mapsto> \<lparr>field = Some ''mood_col''\<rparr>]\<rparr>"
      "''mood''" "\<lparr>field = Some ''mood_col''\<rparr>"]
  by simp

text \<open>
  The other ways \<^verbatim>\<open>toSql\<close> fails although a context is attached: the attribute is
  not one of the model's, or the query generator is not the dialect's own.
\<close>

lemma enum_toSql_missing_attribute:
  "getAttributes m attributeName = None \<Longrightarrow>
     ENUM_toSql pgEnumName (Some (ModelContext m attributeName sq))
       = Inl (TypeError ''Cannot read properties of undefined (reading 'field')'')"
  by (simp add: ENUM_toSql_def)

lemma enum_toSql_other_query_generator:
  "queryGenerator (sequelize_dialect sq) \<noteq> CockroachDbQueryGenerator \<Longrightarrow>
     ENUM_toSql pgEnumName (Some (ColumnContext tableName columnName sq))
       = Inl (AssertionError ''expected queryGenerator to be PostgresQueryGenerator'')"
  by (simp add: ENUM_toSql_def)

text \<open>Whenever \<^verbatim>\<open>toSql\<close> returns a name, a context was attached.\<close>

lemma enum_toSql_returns_only_with_context:
  "ENUM_toSql pgEnumName usageContext = Inr sql \<Longrightarrow> usageContext \<noteq> None"
  by (cases usageContext) (simp_all add: ENUM_toSql_def)

section \<open>Dropping a database is gated by the descriptor\<close>

text \<open>
  C8, as the test has it. When the descriptor marks databases as unsupported, the
  request fails with an error whose message contains the name of the engine, and no
  SQL text is returned. On an engine that supports databases and is not mssql, the
  statement is \<^verbatim>\<open>DROP DATABASE IF EXISTS\<close>, the quoted name and a semicolon. The
  descriptor of this dialect sets \<^verbatim>\<open>multiDatabases\<close>, so it is one of those engines.
  On mssql the statement is the generator's own: for the database \<^verbatim>\<open>myDatabase\<close> it
  is the text the test expects, which begins with \<^verbatim>\<open>IF EXISTS (SELECT\<close>.
\<close>

theorem drop_database_gated:
  "dropDatabaseQuery dialectName False quoteIdentifier mssqlStatement database
     = Inl (Error (''Databases are not supported in '' @ dialectName @ ''.''))
   \<and> sublist dialectName (''Databases are not supported in '' @ dialectName @ ''.'')
   \<and> (dialectName \<noteq> ''mssql'' \<longrightarrow>
        dropDatabaseQuery dialectName True quoteIdentifier mssqlStatement database
          = Inr (''DROP DATABASE IF EXISTS '' @ quoteIdentifier database @ '';''))
   \<and> multiDatabases CockroachDbDialect_supports
   \<and> dropDatabaseQuery CockroachDbDialect_name (multiDatabases CockroachDbDialect_supports)
        quoteIdentifier mssqlStatement database
       = Inr (''DROP DATABASE IF EXISTS '' @ quoteIdentifier database @ '';'')
   \<and> dropDatabaseQuery ''mssql'' True quoteIdentifier mssqlStatement ''myDatabase''
       = Inr (''IF EXISTS (SELECT * FROM sys.databases WHERE name = N'' @ [CHR 0x27]
              @ ''myDatabase'' @ [CHR 0x27] @ '' ) BEGIN DROP DATABASE [myDatabase] ; END;'')
   \<and> dropDatabaseQuery ''mssql'' True quoteIdentifier mssqlStatement database
       = Inr (if database = ''myDatabase'' then mssql_drop_myDatabase
              else mssqlStatement database)"
proof (intro conjI)
  show "sublist dialectName (''Databases are not supported in '' @ dialectName @ ''.'')"
    by (rule sublist_appendI)
qed (simp_all add: dropDatabaseQuery_def CockroachDbDialect_supports_def
      CockroachDbDialect_name_def mssql_drop_myDatabase_def)

text \<open>
  With quoting switched off: postgres drops \<^verbatim>\<open>myDatabase\<close>, and an engine without
  databases is named in the error.
\<close>

theorem drop_database_witness:
  "''postgres'' \<noteq> ''mssql''
   \<and> dropDatabaseQuery ''postgres'' True id id ''myDatabase''
       = Inr ''DROP DATABASE IF EXISTS myDatabase;''
   \<and> dropDatabaseQuery ''sqlite'' False id id ''myDatabase''
       = Inl (Error ''Databases are not supported in sqlite.'')"
  using drop_database_gated [of "''postgres''" id id "''myDatabase''"]
    drop_database_gated [of "''sqlite''" id id "''myDatabase''"]
  by simp

text \<open>
  The claim has every engine that supports databases produce a
  \<^verbatim>\<open>DROP DATABASE IF EXISTS\<close> statement. The test expects of mssql, which supports
  them, a statement that begins with \<^verbatim>\<open>IF EXISTS (SELECT\<close> instead.
\<close>

theorem drop_database_mssql_counterexample:
  "dropDatabaseQuery ''mssql'' True id id ''myDatabase''
     = Inr (''IF EXISTS (SELECT * FROM sys.databases WHERE name = N'' @ [CHR 0x27]
            @ ''myDatabase'' @ [CHR 0x27] @ '' ) BEGIN DROP DATABASE [myDatabase] ; END;'')
   \<and> dropDatabaseQuery ''mssql'' True id id ''myDatabase''
     \<noteq> Inr ''DROP DATABASE IF EXISTS myDatabase;''
   \<and> \<not> prefix ''DROP DATABASE IF EXISTS''
        (''IF EXISTS (SELECT * FROM sys.databases WHERE name = N'' @ [CHR 0x27]
            @ ''myDatabase'' @ [CHR 0x27] @ '' ) BEGIN DROP DATABASE [myDatabase] ; END;'')"
  by (simp add: dropDatabaseQuery_def mssql_drop_myDatabase_def)

section \<open>Placeholders keep the order of the values\<close>

text \<open>
  Composing from any collector appends the statement's values to those already bound
  and numbers the placeholders on from there.
\<close>

lemma compose_from:
  "compose fs c = ((sql, ps), c') \<Longrightarrow>
     bound c' = bound c @ values_of fs
     \<and> ps = map (\<lambda>k. ''$'' @ decimal k)
           [length (bound c) + 1 ..< length (bound c) + 1 + length (values_of fs)]"
proof (induction fs c arbitrary: sql ps c' rule: compose.induct)
  case (1 c)
  then show ?case by simp
next
  case (2 t fs c)
  then show ?case by (auto split: prod.splits)
next
  case (3 v fs c)
  obtain sql' ps' where r: "compose fs (c\<lparr>bound := bound c @ [v]\<rparr>) = ((sql', ps'), c')"
    using "3.prems" by (auto simp add: bind_def split: prod.splits)
  have ps: "ps = (''$'' @ decimal (length (bound c) + 1)) # ps'"
    using "3.prems" r by (simp add: bind_def)
  from "3.IH" [OF _ r] have
    "bound c' = (bound c @ [v]) @ values_of fs"
    "ps' = map (\<lambda>k. ''$'' @ decimal k)
           [length (bound c) + 2 ..< length (bound c) + 2 + length (values_of fs)]"
    by (simp_all add: bind_def)
  with ps show ?case
    by (simp add: upt_conv_Cons del: upt_Suc)
qed

lemma placeholder_number_decimal: "placeholder_number (''$'' @ decimal k) = k"
  by (simp add: placeholder_number_def read_decimal_decimal)

lemma placeholder_numbers: "map placeholder_number (map (\<lambda>k. ''$'' @ decimal k) ks) = ks"
  by (induction ks) (simp_all add: placeholder_number_def read_decimal_decimal)

lemma placeholders_distinct:
  "distinct (map (\<lambda>k. ''$'' @ decimal k) [i ..< j])"
  by (simp add: distinct_map inj_on_def decimal_inj)

text \<open>
  C9. A statement is composed through a fresh collector from any interleaving of text
  and bound values, \<open>N\<close> values in all. Then \<^verbatim>\<open>finalize()\<close> returns the values in
  the order they were bound; the \<open>N\<close> placeholders are \<^verbatim>\<open>$1\<close> to \<^verbatim>\<open>$N\<close> in the order
  of the calls, so they are distinct and their numbers increase strictly. The text
  fragments play no part in any of this.
\<close>

theorem bind_collector_order:
  "finalize (snd (compose fs createBindCollector)) = values_of fs
   \<and> length (snd (fst (compose fs createBindCollector))) = length (values_of fs)
   \<and> distinct (snd (fst (compose fs createBindCollector)))
   \<and> snd (fst (compose fs createBindCollector))
       = map (\<lambda>k. ''$'' @ decimal k) [1 ..< Suc (length (values_of fs))]
   \<and> map placeholder_number (snd (fst (compose fs createBindCollector)))
       = [1 ..< Suc (length (values_of fs))]
   \<and> sorted_wrt (<) (map placeholder_number (snd (fst (compose fs createBindCollector))))"
proof -
  obtain sql ps c where r: "compose fs createBindCollector = ((sql, ps), c)"
    by (metis prod.exhaust)
  from compose_from [OF r] have
    b: "bound c = values_of fs" and
    p: "ps = map (\<lambda>k. ''$'' @ decimal k) [1 ..< Suc (length (values_of fs))]"
    by (simp_all add: createBindCollector_def del: upt_Suc)
  have n: "map placeholder_number ps = [1 ..< Suc (length (values_of fs))]"
    unfolding p by (rule placeholder_numbers)
  have "sorted_wrt (<) [1 ..< Suc (length (values_of fs))]"
    by (rule sorted_wrt_upt)
  with n have s: "sorted_wrt (<) (map placeholder_number ps)"
    by simp
  have d: "distinct ps"
    unfolding p by (rule placeholders_distinct)
  from r b p n s d show ?thesis
    by (simp add: finalize_def del: upt_Suc)
qed

text \<open>Three values bound between pieces of text.\<close>

lemma bind_collector_example:
  "compose [Text ''SELECT * FROM t WHERE a = '', Value (1::nat), Text '' AND b = '',
            Value 2, Text '' AND c = '', Value 3] createBindCollector
     = ((''SELECT * FROM t WHERE a = $1 AND b = $2 AND c = $3'', [''$1'', ''$2'', ''$3'']),
        \<lparr>bound = [1, 2, 3]\<rparr>)"
proof -
  have "decimal (Suc (Suc 0)) = ''2''" "decimal (Suc (Suc (Suc 0))) = ''3''"
    by (simp_all add: decimal.simps [of "Suc (Suc 0)"] decimal.simps [of "Suc (Suc (Suc 0))"]
        digit_char_def)
  then show ?thesis
    by (simp add: createBindCollector_def bind_def decimal_eval)
qed

end
